theory Spec2Isabelle
  imports Complex_Main
begin

section \<open>Data model\<close>

text \<open>
  The store holds two collections, customers and transactions (Mongoose models
  \<^verbatim>\<open>Customer\<close> and \<^verbatim>\<open>Transaction\<close>). Object identifiers are taken well formed
  and modelled as natural numbers; a date is a number of milliseconds. A JavaScript
  number is modelled as an exact rational: comparisons are those of the code, sums and
  products are the exact ones, so the rounding of IEEE doubles, \<^verbatim>\<open>NaN\<close> and the
  infinities are outside the model. Strings are byte strings, read as ASCII.
\<close>

type_synonym oid = nat
type_synonym date = int

record customer =
  cust_id :: oid
  firstname :: string
  lastname :: string
  email :: string
  accountNumber :: string
  password :: string
  phoneNumber :: string
  address :: string
  city :: string
  state :: string
  country :: string
  postalCode :: string
  balance :: rat
  currency :: string
  transactionPin :: string

record transaction =
  tx_id :: oid
  fromUserId :: oid
  toUserId :: oid
  amount :: rat
  description :: string
  createdAt :: date

record db =
  customers :: "customer list"
  transactions :: "transaction list"
  nextId :: oid

subsection \<open>Strings\<close>

definition is_space :: "char \<Rightarrow> bool" where
  "is_space c = (c \<in> set [CHR '' '', CHR 0x09, CHR 0x0A, CHR 0x0B, CHR 0x0C, CHR 0x0D])"

definition trim :: "string \<Rightarrow> string" where
  "trim s = rev (dropWhile is_space (rev (dropWhile is_space s)))"

definition upper_letters :: string where
  "upper_letters = ''ABCDEFGHIJKLMNOPQRSTUVWXYZ''"

definition lower_letters :: string where
  "lower_letters = ''abcdefghijklmnopqrstuvwxyz''"

definition lower_char :: "char \<Rightarrow> char" where
  "lower_char c = (case map_of (zip upper_letters lower_letters) c of Some d \<Rightarrow> d | None \<Rightarrow> c)"

definition upper_char :: "char \<Rightarrow> char" where
  "upper_char c = (case map_of (zip lower_letters upper_letters) c of Some d \<Rightarrow> d | None \<Rightarrow> c)"

definition toLowerCase :: "string \<Rightarrow> string" where
  "toLowerCase s = map lower_char s"

definition toUpperCase :: "string \<Rightarrow> string" where
  "toUpperCase s = map upper_char s"

definition is_digit :: "char \<Rightarrow> bool" where
  "is_digit c = (let n = (of_char c :: nat) in 48 \<le> n \<and> n \<le> 57)"

definition is_upper :: "char \<Rightarrow> bool" where
  "is_upper c = (let n = (of_char c :: nat) in 65 \<le> n \<and> n \<le> 90)"

definition is_lower :: "char \<Rightarrow> bool" where
  "is_lower c = (let n = (of_char c :: nat) in 97 \<le> n \<and> n \<le> 122)"

definition digit_char :: "nat \<Rightarrow> char" where
  "digit_char d = ''0123456789'' ! d"

text \<open>The decimal text of a natural number, as a template literal prints an integer.\<close>

fun show_nat :: "nat \<Rightarrow> string" where
  "show_nat n = (if n < 10 then [digit_char n] else show_nat (n div 10) @ [digit_char (n mod 10)])"

declare show_nat.simps [simp del]

text \<open>
  A request field is \<^term>\<open>None\<close> when it is absent or \<^verbatim>\<open>null\<close>. The test \<^verbatim>\<open>!x\<close>
  of the source also holds for the empty string and for the number zero.
\<close>

definition falsy_str :: "string option \<Rightarrow> bool" where
  "falsy_str x = (case x of None \<Rightarrow> True | Some s \<Rightarrow> s = [])"

definition falsy_num :: "rat option \<Rightarrow> bool" where
  "falsy_num x = (case x of None \<Rightarrow> True | Some a \<Rightarrow> a = 0)"

definition falsy_id :: "oid option \<Rightarrow> bool" where
  "falsy_id x = (x = None)"

definition or_default :: "string option \<Rightarrow> string \<Rightarrow> string" where
  "or_default x d = (if falsy_str x then d else the x)"

subsection \<open>Store operations\<close>

text \<open>
  Mongoose applies the setters of the schema (\<^verbatim>\<open>trim\<close>, \<^verbatim>\<open>lowercase\<close>) to a value
  that is stored and to a value that is queried.
\<close>

definition cast_email :: "string \<Rightarrow> string" where
  "cast_email e = toLowerCase (trim e)"

definition findById :: "db \<Rightarrow> oid \<Rightarrow> customer option" where
  "findById s i = find (\<lambda>c. cust_id c = i) (customers s)"

definition findOne_email :: "db \<Rightarrow> string \<Rightarrow> customer option" where
  "findOne_email s e = find (\<lambda>c. email c = cast_email e) (customers s)"

definition findOne_accountNumber :: "db \<Rightarrow> string \<Rightarrow> customer option" where
  "findOne_accountNumber s a = find (\<lambda>c. accountNumber c = trim a) (customers s)"

definition findTransactionById :: "db \<Rightarrow> oid \<Rightarrow> transaction option" where
  "findTransactionById s i = find (\<lambda>t. tx_id t = i) (transactions s)"

text \<open>\<^verbatim>\<open>findByIdAndUpdate(id, { $inc: { balance: d } })\<close>: one document is updated.\<close>

fun inc_balance :: "oid \<Rightarrow> rat \<Rightarrow> customer list \<Rightarrow> customer list" where
  "inc_balance i d [] = []"
| "inc_balance i d (c # cs) =
     (if cust_id c = i then c\<lparr>balance := balance c + d\<rparr> # cs else c # inc_balance i d cs)"

definition findByIdAndUpdate_inc :: "db \<Rightarrow> oid \<Rightarrow> rat \<Rightarrow> db" where
  "findByIdAndUpdate_inc s i d = s\<lparr>customers := inc_balance i d (customers s)\<rparr>"

datatype db_error = ValidationError | DuplicateKey

text \<open>
  \<^verbatim>\<open>new Customer({...})\<close> assigns a fresh identifier and applies the setters of
  \<^verbatim>\<open>CustomerSchema\<close>; \<^verbatim>\<open>save()\<close> validates the required fields and fails with the
  duplicate-key error (code 11000) on the unique indexes of email and account number.
\<close>

definition new_Customer :: "db \<Rightarrow> customer \<Rightarrow> customer" where
  "new_Customer s c = c\<lparr>cust_id := nextId s,
     firstname := trim (firstname c), lastname := trim (lastname c),
     email := cast_email (email c), accountNumber := trim (accountNumber c),
     phoneNumber := trim (phoneNumber c), address := trim (address c),
     city := trim (city c), state := trim (state c), country := trim (country c),
     postalCode := trim (postalCode c)\<rparr>"

definition save_customer :: "db \<Rightarrow> customer \<Rightarrow> db_error + db" where
  "save_customer s c =
     (if firstname c = [] \<or> lastname c = [] \<or> email c = [] \<or> accountNumber c = []
         \<or> password c = [] \<or> transactionPin c = []
      then Inl ValidationError
      else if (\<exists>c' \<in> set (customers s). email c' = email c \<or> accountNumber c' = accountNumber c)
      then Inl DuplicateKey
      else Inr (s\<lparr>customers := customers s @ [c], nextId := Suc (nextId s)\<rparr>))"

definition new_Transaction :: "db \<Rightarrow> date \<Rightarrow> oid \<Rightarrow> oid \<Rightarrow> rat \<Rightarrow> string \<Rightarrow> transaction" where
  "new_Transaction s now f t a d =
     \<lparr>tx_id = nextId s, fromUserId = f, toUserId = t, amount = a, description = d,
      createdAt = now\<rparr>"

definition save_transaction :: "db \<Rightarrow> transaction \<Rightarrow> db" where
  "save_transaction s t = s\<lparr>transactions := transactions s @ [t], nextId := Suc (nextId s)\<rparr>"

subsection \<open>External libraries\<close>

text \<open>
  The libraries the handlers call are parameters of the model: \<^verbatim>\<open>jsonwebtoken\<close>
  (\<^verbatim>\<open>verify\<close> throws one of three errors or returns the payload; the secret and
  the clock are part of the parameter), \<^verbatim>\<open>bcryptjs\<close>, and \<^verbatim>\<open>Math.random\<close>,
  whose \<open>i\<close>-th value within one call of the account number generator is \<open>random i\<close>.
\<close>

datatype jwt_error = JsonWebTokenError | TokenExpiredError | NotBeforeError

record jwt_payload =
  p_customerId :: oid
  p_email :: string
  p_accountNumber :: string

record lib =
  jwt_verify :: "string \<Rightarrow> jwt_error + jwt_payload"
  jwt_sign :: "jwt_payload \<Rightarrow> string"
  bcrypt_hash :: "string \<Rightarrow> string"
  bcrypt_compare :: "string \<Rightarrow> string \<Rightarrow> bool"
  random :: "nat \<Rightarrow> rat"

subsection \<open>Responses\<close>

record user_view =
  u_id :: oid
  u_name :: string
  u_email :: string
  u_accountNumber :: "string option"

record tx_view =
  v_id :: oid
  v_amount :: rat
  v_description :: string
  v_fromUser :: user_view
  v_toUser :: user_view
  v_createdAt :: date

record transfer_details =
  td_transferType :: string
  td_receiverName :: string
  td_receiverAccountNumber :: string
  td_receiverBankName :: "string option"
  td_amount :: rat
  td_fee :: rat
  td_totalAmount :: rat
  td_currency :: string
  td_timestamp :: date

record counterparty =
  cp_name :: string
  cp_accountNumber :: string
  cp_email :: string

text \<open>
  One line of a statement. The \<^verbatim>\<open>reference\<close> field of the source, the last eight
  characters of the identifier's hexadecimal text, is not part of the model.
\<close>

record entry =
  e_id :: oid
  e_date :: date
  e_description :: string
  e_type :: string
  e_amount :: rat
  e_balance :: rat
  e_counterparty :: counterparty

record summary =
  sm_openingBalance :: rat
  sm_closingBalance :: rat
  sm_totalCredits :: rat
  sm_totalDebits :: rat
  sm_netChange :: rat
  sm_transactionCount :: nat
  sm_creditCount :: nat
  sm_debitCount :: nat

record customer_data =
  cd_id :: oid
  cd_firstName :: string
  cd_lastName :: string
  cd_email :: string
  cd_accountNumber :: string
  cd_balance :: rat
  cd_phoneNumber :: string
  cd_address :: string
  cd_city :: string
  cd_state :: string
  cd_country :: string
  cd_postalCode :: string
  cd_currency :: string

record statement_customer =
  sc_id :: oid
  sc_name :: string
  sc_email :: string
  sc_accountNumber :: string
  sc_street :: string
  sc_city :: string
  sc_state :: string
  sc_postalCode :: string
  sc_country :: string

record statement_data =
  st_customer :: statement_customer
  st_startDate :: date
  st_endDate :: date
  st_summary :: summary
  st_transactions :: "entry list"
  st_generatedAt :: date
  st_currency :: string

text \<open>
  The JSON bodies of the handlers: \<^verbatim>\<open>{ error }\<close>, \<^verbatim>\<open>{ success: false, message }\<close>,
  the payloads of the successful deposit, peer transfer, statement (with the marker of
  the PDF format) and registration (token and customer), the payload of the
  service-unavailable answer of the customer transfer, which carries
  \<^verbatim>\<open>success: false\<close>, a fixed error text and support information besides the
  transfer details, and the payload of a verified token.
\<close>

datatype body =
    Err string
  | Fail string
  | DepositBody tx_view "rat option"
  | TransactionBody tx_view
  | StatementBody statement_data bool
  | RegisteredBody string customer_data
  | UnavailableBody transfer_details
  | VerifiedBody jwt_payload


record response =
  status :: nat
  body :: body

definition json :: "body \<Rightarrow> nat \<Rightarrow> response" where
  "json b st = \<lparr>status = st, body = b\<rparr>"

definition full_name :: "customer \<Rightarrow> string" where
  "full_name c = firstname c @ '' '' @ lastname c"

definition customerData :: "customer \<Rightarrow> customer_data" where
  "customerData c =
     \<lparr>cd_id = cust_id c, cd_firstName = firstname c, cd_lastName = lastname c,
      cd_email = email c, cd_accountNumber = accountNumber c, cd_balance = balance c,
      cd_phoneNumber = phoneNumber c, cd_address = address c, cd_city = city c,
      cd_state = state c, cd_country = country c, cd_postalCode = postalCode c,
      cd_currency = currency c\<rparr>"

section \<open>Admin deposit: POST /api/admin/deposit\<close>

record deposit_request =
  d_accountNumber :: "string option"
  d_amount :: "rat option"
  d_description :: "string option"

definition halifax_email :: string where
  "halifax_email = ''halifax@bank.system''"

definition halifaxBank_fields :: customer where
  "halifaxBank_fields =
     \<lparr>cust_id = 0, firstname = ''Halifax'', lastname = ''Bank'', email = halifax_email,
      accountNumber = ''HALIFAX001'', password = ''system-account'',
      phoneNumber = ''1-800-HALIFAX'', address = ''Halifax Banking Center'',
      city = ''Halifax'', state = ''NS'', country = ''Canada'', postalCode = ''B3H 0A1'',
      balance = 999999999, currency = ''USD'', transactionPin = ''1234''\<rparr>"

text \<open>Find or create the system account; a failing \<^verbatim>\<open>save()\<close> throws.\<close>

definition find_or_create_halifaxBank :: "db \<Rightarrow> db_error + (db \<times> customer)" where
  "find_or_create_halifaxBank s =
     (case findOne_email s halifax_email of
        Some h \<Rightarrow> Inr (s, h)
      | None \<Rightarrow>
          (let h = new_Customer s halifaxBank_fields in
           case save_customer s h of
             Inl e \<Rightarrow> Inl e
           | Inr s' \<Rightarrow> Inr (s', h)))"

definition deposit_view :: "transaction \<Rightarrow> customer \<Rightarrow> customer \<Rightarrow> tx_view" where
  "deposit_view t f u =
     \<lparr>v_id = tx_id t, v_amount = amount t, v_description = description t,
      v_fromUser = \<lparr>u_id = cust_id f, u_name = full_name f, u_email = email f,
                    u_accountNumber = Some (accountNumber f)\<rparr>,
      v_toUser = \<lparr>u_id = cust_id u, u_name = full_name u, u_email = email u,
                  u_accountNumber = Some (accountNumber u)\<rparr>,
      v_createdAt = createdAt t\<rparr>"

definition deposit_POST :: "date \<Rightarrow> bool \<Rightarrow> deposit_request \<Rightarrow> db \<Rightarrow> db \<times> response" where
  "deposit_POST now session r s =
     (if \<not> session then (s, json (Err ''Unauthorized'') 401)
      else if falsy_str (d_accountNumber r) \<or> falsy_num (d_amount r)
      then (s, json (Err ''Account number and amount are required'') 400)
      else if the (d_amount r) \<le> 0
      then (s, json (Err ''Amount must be greater than 0'') 400)
      else
        (case findOne_accountNumber s (the (d_accountNumber r)) of
           None \<Rightarrow> (s, json (Err ''Customer with this account number not found'') 404)
         | Some cust \<Rightarrow>
            (case find_or_create_halifaxBank s of
               Inl e \<Rightarrow> (s, json (Err ''Internal server error'') 500)
             | Inr (s1, halifaxBank) \<Rightarrow>
                (let t = new_Transaction s1 now (cust_id halifaxBank) (cust_id cust)
                           (the (d_amount r))
                           (or_default (d_description r)
                              (''Deposit to account '' @ the (d_accountNumber r)));
                     s2 = save_transaction s1 t;
                     s3 = findByIdAndUpdate_inc s2 (cust_id cust) (the (d_amount r));
                     updatedCustomer = findById s3 (cust_id cust);
                     populated = findTransactionById s3 (tx_id t)
                 in case populated of
                      None \<Rightarrow> (s3, json (Err ''Failed to retrieve transaction details'') 500)
                    | Some p \<Rightarrow>
                       (case (findById s3 (fromUserId p), findById s3 (toUserId p)) of
                          (Some f, Some u) \<Rightarrow>
                            (s3, json (DepositBody (deposit_view p f u)
                                         (map_option balance updatedCustomer)) 201)
                        | _ \<Rightarrow>
                            (s3, json (Err ''Failed to retrieve transaction details'') 500))))))"

section \<open>Admin peer transfer: POST /api/admin/transactions\<close>

record transaction_request =
  t_fromUserId :: "oid option"
  t_toUserId :: "oid option"
  t_amount :: "rat option"
  t_description :: "string option"

definition transaction_view :: "transaction \<Rightarrow> customer \<Rightarrow> customer \<Rightarrow> tx_view" where
  "transaction_view t f u =
     \<lparr>v_id = tx_id t, v_amount = amount t, v_description = description t,
      v_fromUser = \<lparr>u_id = cust_id f, u_name = full_name f, u_email = email f,
                    u_accountNumber = None\<rparr>,
      v_toUser = \<lparr>u_id = cust_id u, u_name = full_name u, u_email = email u,
                  u_accountNumber = None\<rparr>,
      v_createdAt = createdAt t\<rparr>"

definition transactions_POST ::
  "date \<Rightarrow> bool \<Rightarrow> transaction_request \<Rightarrow> db \<Rightarrow> db \<times> response" where
  "transactions_POST now session r s =
     (if \<not> session then (s, json (Err ''Unauthorized'') 401)
      else if falsy_id (t_fromUserId r) \<or> falsy_id (t_toUserId r) \<or> falsy_num (t_amount r)
      then (s, json (Err ''From user, to user, and amount are required'') 400)
      else
        (case (findById s (the (t_fromUserId r)), findById s (the (t_toUserId r))) of
           (Some fromUser, Some toUser) \<Rightarrow>
             (if balance fromUser < the (t_amount r)
              then (s, json (Err ''Insufficient balance'') 400)
              else
                (let t = new_Transaction s now (the (t_fromUserId r)) (the (t_toUserId r))
                           (the (t_amount r)) (or_default (t_description r) ''Transfer'');
                     s1 = save_transaction s t;
                     s2 = findByIdAndUpdate_inc s1 (the (t_fromUserId r)) (- the (t_amount r));
                     s3 = findByIdAndUpdate_inc s2 (the (t_toUserId r)) (the (t_amount r))
                 in case (findById s3 (fromUserId t), findById s3 (toUserId t)) of
                      (Some f, Some u) \<Rightarrow> (s3, json (TransactionBody (transaction_view t f u)) 201)
                    | _ \<Rightarrow> (s3, json (Err ''Internal server error'') 500)))
         | _ \<Rightarrow> (s, json (Err ''One or both users not found'') 404)))"

section \<open>Token handling: lib/auth.ts\<close>

definition startsWith :: "string \<Rightarrow> string \<Rightarrow> bool" where
  "startsWith s p = (take (length p) s = p)"



section \<open>Token verification: GET /api/customer/auth/verify\<close>


section \<open>Statement: GET /api/customer/statement\<close>





text \<open>
  \<^verbatim>\<open>Transaction.find({...}).populate(...).sort({ createdAt: 1 })\<close>: the transactions
  that involve the customer within the range, oldest first (transactions of one date in
  the order of the store), each with its two customer documents looked up
  (\<^verbatim>\<open>null\<close> when the customer no longer exists).
\<close>

record populated =
  p_tx :: transaction
  p_from :: "customer option"
  p_to :: "customer option"









section \<open>Customer transfer: POST /api/customer/transfer\<close>

record transfer_request =
  f_authorization :: "string option"
  f_transferType :: "string option"
  f_receiverName :: "string option"
  f_receiverAccountNumber :: "string option"
  f_receiverBankName :: "string option"
  f_receiverBankCode :: "string option"
  f_receiverSwiftCode :: "string option"
  f_receiverAddress :: "string option"
  f_amount :: "rat option"
  f_currency :: "string option"
  f_description :: "string option"
  f_transactionPin :: "string option"

definition currencySymbols :: "(string \<times> string) list" where
  "currencySymbols =
     [(''USD'', ''$''), (''EUR'', [CHR 0xE2, CHR 0x82, CHR 0xAC]), (''GBP'', [CHR 0xC2, CHR 0xA3]),
      (''CAD'', ''C$''), (''AUD'', ''A$''), (''JPY'', [CHR 0xC2, CHR 0xA5]), (''CHF'', ''CHF'')]"

definition getCurrencySymbol :: "string \<Rightarrow> string" where
  "getCurrencySymbol currencyCode =
     (case map_of currencySymbols (toUpperCase currencyCode) of Some symbol \<Rightarrow> symbol | None \<Rightarrow> ''$'')"

text \<open>\<^verbatim>\<open>x.toFixed(2)\<close> for a number below \<open>10\<^sup>2\<^sup>1\<close> in absolute value.\<close>

definition toFixed2 :: "rat \<Rightarrow> string" where
  "toFixed2 x =
     (let n = nat \<lfloor>\<bar>x\<bar> * 100 + 1 / 2\<rfloor> in
      (if x < 0 then ''-'' else []) @ show_nat (n div 100) @ ''.''
        @ [digit_char (n mod 100 div 10), digit_char (n mod 10)])"

text \<open>The regular expressions of the handler, each anchored at both ends.\<close>

definition swift_ok :: "string \<Rightarrow> bool" where
  "swift_ok x = ((length x = 8 \<or> length x = 11) \<and> list_all is_upper (take 6 x)
                 \<and> list_all (\<lambda>c. is_upper c \<or> is_digit c) (drop 6 x))"

definition local_account_ok :: "string \<Rightarrow> bool" where
  "local_account_ok x = (10 \<le> length x \<and> length x \<le> 12 \<and> list_all is_digit x)"

definition pin_ok :: "string \<Rightarrow> bool" where
  "pin_ok x = (4 \<le> length x \<and> length x \<le> 6 \<and> list_all is_digit x)"

definition name_ok :: "string \<Rightarrow> bool" where
  "name_ok x = (2 \<le> length x \<and> length x \<le> 50
      \<and> list_all (\<lambda>c. is_lower c \<or> is_upper c \<or> is_space c
                        \<or> c = CHR ''.'' \<or> c = CHR 0x27 \<or> c = CHR ''-'') x)"

text \<open>
  \<^verbatim>\<open>receiverAccountNumber.replace(/(.{4})/, '****')\<close>: the first run of four
  characters that are no line terminators becomes four asterisks; a string without such
  a run is left as it is.
\<close>

definition line_terminator :: "char \<Rightarrow> bool" where
  "line_terminator c = (c = CHR 0x0A \<or> c = CHR 0x0D)"

fun mask_account :: "string \<Rightarrow> string" where
  "mask_account (a # b # c # d # rest) =
     (if \<not> line_terminator a \<and> \<not> line_terminator b \<and> \<not> line_terminator c \<and> \<not> line_terminator d
      then ''****'' @ rest
      else a # mask_account (b # c # d # rest))"
| "mask_account x = x"

definition supportedCurrencies :: "string list" where
  "supportedCurrencies = [''USD'', ''EUR'', ''GBP'', ''CAD'', ''AUD'', ''JPY'', ''CHF'']"

definition insufficient_message :: "customer \<Rightarrow> rat \<Rightarrow> rat \<Rightarrow> rat \<Rightarrow> string" where
  "insufficient_message cust transferAmount transferFee totalAmount =
     (let customerCurrency = (if currency cust = [] then ''USD'' else currency cust);
          currencySymbol = getCurrencySymbol customerCurrency
      in ''Insufficient balance. Transfer amount: '' @ currencySymbol @ toFixed2 transferAmount
         @ '', Fee: '' @ currencySymbol @ toFixed2 transferFee
         @ '', Total required: '' @ currencySymbol @ toFixed2 totalAmount
         @ '', Available: '' @ currencySymbol @ toFixed2 (balance cust))"

definition transfer_POST :: "lib \<Rightarrow> date \<Rightarrow> transfer_request \<Rightarrow> db \<Rightarrow> db \<times> response" where
  "transfer_POST l now r s =
     (if falsy_str (f_authorization r) \<or> \<not> startsWith (the (f_authorization r)) ''Bearer ''
      then (s, json (Err ''Authorization token required'') 401)
      else case jwt_verify l (drop 7 (the (f_authorization r))) of
        Inl e \<Rightarrow> (s, json (Err ''Invalid or expired token'') 401)
      | Inr decoded \<Rightarrow>
         if falsy_str (f_transferType r) \<or> falsy_str (f_receiverName r)
            \<or> falsy_str (f_receiverAccountNumber r) \<or> falsy_num (f_amount r)
            \<or> falsy_str (f_transactionPin r)
         then (s, json (Err ''Transfer type, receiver name, account number, amount, and transaction PIN are required'') 400)
         else
          (let transferType = the (f_transferType r);
               receiverName = the (f_receiverName r);
               receiverAccountNumber = the (f_receiverAccountNumber r);
               pin = the (f_transactionPin r);
               transferAmount = the (f_amount r)
           in
           if transferType \<notin> set [''local'', ''international'']
           then (s, json (Err (''Transfer type must be either '' @ [CHR 0x22] @ ''local'' @ [CHR 0x22]
                             @ '' or '' @ [CHR 0x22] @ ''international'' @ [CHR 0x22])) 400)
           else if transferAmount \<le> 0
           then (s, json (Err ''Amount must be a positive number'') 400)
           else if transferAmount < 1
           then (s, json (Err ''Minimum transfer amount is $1.00'') 400)
           else if transferType = ''international''
                   \<and> (falsy_str (f_receiverBankName r) \<or> falsy_str (f_receiverSwiftCode r)
                        \<or> falsy_str (f_receiverAddress r))
           then (s, json (Err ''Bank name, SWIFT code, and receiver address are required for international transfers'') 400)
           else if transferType = ''international'' \<and> \<not> swift_ok (the (f_receiverSwiftCode r))
           then (s, json (Err ''Invalid SWIFT code format'') 400)
           else if transferType = ''local'' \<and> falsy_str (f_receiverBankName r)
           then (s, json (Err ''Bank name is required for local transfers'') 400)
           else if transferType = ''local'' \<and> \<not> local_account_ok receiverAccountNumber
           then (s, json (Err ''Account number must be 10-12 digits for local transfers'') 400)
           else if \<not> pin_ok pin
           then (s, json (Err ''Transaction PIN must be 4-6 digits'') 400)
           else case findById s (p_customerId decoded) of
             None \<Rightarrow> (s, json (Err ''Customer not found'') 404)
           | Some cust \<Rightarrow>
              if \<not> bcrypt_compare l pin (transactionPin cust)
              then (s, json (Err ''Invalid transaction PIN'') 400)
              else if balance cust < transferAmount
              then (s, json (Err ''Insufficient balance for this transfer'') 400)
              else
               (let transferFee = (if transferType = ''international''
                                   then transferAmount * (2 / 100) else 5 / 2);
                    totalAmount = transferAmount + transferFee
                in
                if balance cust < totalAmount
                then (s, json (Err (insufficient_message cust transferAmount transferFee totalAmount)) 400)
                else if \<not> name_ok receiverName
                then (s, json (Err ''Receiver name must be 2-50 characters and contain only letters, spaces, periods, hyphens, and apostrophes'') 400)
                else if receiverAccountNumber = accountNumber cust
                then (s, json (Err ''Cannot transfer to your own account'') 400)
                else if transferType = ''international'' \<and> \<not> falsy_str (f_currency r)
                        \<and> toUpperCase (the (f_currency r)) \<notin> set supportedCurrencies
                then (s, json (Err ''Unsupported currency. Supported currencies: USD, EUR, GBP, CAD, AUD, JPY, CHF'') 400)
                else if transferAmount > 10000
                then (s, json (Err ''Transfer amount exceeds daily limit of $10,000'') 400)
                else
                  (s, json (UnavailableBody
                       \<lparr>td_transferType = transferType, td_receiverName = receiverName,
                        td_receiverAccountNumber = mask_account receiverAccountNumber,
                        td_receiverBankName = f_receiverBankName r,
                        td_amount = transferAmount, td_fee = transferFee,
                        td_totalAmount = totalAmount,
                        td_currency = or_default (f_currency r) (currency cust),
                        td_timestamp = now\<rparr>) 503))))"

section \<open>Account numbers: lib/accountUtils.ts\<close>

definition maxAttempts :: nat where
  "maxAttempts = 10"

text \<open>\<^verbatim>\<open>`${Math.floor(1000000000 + Math.random() * 9000000000)}`\<close> for the value \<open>x\<close> of \<^verbatim>\<open>Math.random()\<close>.\<close>

definition randomDigits :: "rat \<Rightarrow> string" where
  "randomDigits x = show_nat (nat \<lfloor>1000000000 + x * 9000000000\<rfloor>)"

text \<open>
  The loop state is the triple of the variables \<^verbatim>\<open>accountNumber\<close> (here
  \<open>accNo\<close>, unassigned at first), \<^verbatim>\<open>isUnique\<close> and \<^verbatim>\<open>attempts\<close>.
\<close>

function account_loop ::
  "db \<Rightarrow> (nat \<Rightarrow> rat) \<Rightarrow> string option \<times> bool \<times> nat \<Rightarrow> string option \<times> bool \<times> nat" where
  "account_loop s rnd (accNo, isUnique, attempts) =
     (if \<not> isUnique \<and> attempts < maxAttempts
      then
        (let candidate = randomDigits (rnd attempts);
             existingCustomer = findOne_accountNumber s candidate
         in account_loop s rnd
              (Some candidate, (if existingCustomer = None then True else isUnique),
               attempts + 1))
      else (accNo, isUnique, attempts))"
  by pat_completeness auto
termination
  by (relation "measure (\<lambda>(s, rnd, a, u, n). maxAttempts - n)") auto

declare account_loop.simps [simp del]

datatype gen_error = GenerationFailed

definition generateUniqueAccountNumber :: "db \<Rightarrow> (nat \<Rightarrow> rat) \<Rightarrow> gen_error + string option" where
  "generateUniqueAccountNumber s rnd =
     (case account_loop s rnd (None, False, 0) of
        (accNo, isUnique, attempts) \<Rightarrow>
          if \<not> isUnique then Inl GenerationFailed else Inr accNo)"

section \<open>Registration: POST /api/customer/auth/register\<close>

record register_request =
  g_firstname :: "string option"
  g_lastname :: "string option"
  g_email :: "string option"
  g_password :: "string option"
  g_phoneNumber :: "string option"
  g_address :: "string option"
  g_city :: "string option"
  g_state :: "string option"
  g_country :: "string option"
  g_postalCode :: "string option"
  g_transactionPin :: "string option"

definition register_POST :: "lib \<Rightarrow> register_request \<Rightarrow> db \<Rightarrow> db \<times> response" where
  "register_POST l r s =
     (if falsy_str (g_firstname r) \<or> falsy_str (g_lastname r) \<or> falsy_str (g_email r)
         \<or> falsy_str (g_password r) \<or> falsy_str (g_transactionPin r)
      then (s, json (Fail ''First name, last name, email, password, and transaction PIN are required'') 400)
      else if \<not> pin_ok (the (g_transactionPin r))
      then (s, json (Fail ''Transaction PIN must be 4-6 digits'') 400)
      else case findOne_email s (the (g_email r)) of
        Some existingCustomer \<Rightarrow>
          (s, json (Fail ''Customer with this email already exists'') 409)
      | None \<Rightarrow>
         (let hashedPassword = bcrypt_hash l (the (g_password r));
              hashedTransactionPin = bcrypt_hash l (the (g_transactionPin r))
          in case generateUniqueAccountNumber s (random l) of
               Inl e \<Rightarrow> (s, json (Fail ''Internal server error'') 500)
             | Inr None \<Rightarrow> (s, json (Fail ''Internal server error'') 500)
             | Inr (Some generated) \<Rightarrow>
                (let newCustomer = new_Customer s
                       \<lparr>cust_id = 0, firstname = the (g_firstname r), lastname = the (g_lastname r),
                        email = toLowerCase (the (g_email r)), accountNumber = generated,
                        password = hashedPassword,
                        phoneNumber = or_default (g_phoneNumber r) [],
                        address = or_default (g_address r) [], city = or_default (g_city r) [],
                        state = or_default (g_state r) [],
                        country = or_default (g_country r) ''US'',
                        postalCode = or_default (g_postalCode r) [],
                        balance = 0, currency = ''USD'',
                        transactionPin = hashedTransactionPin\<rparr>
                 in case save_customer s newCustomer of
                      Inl DuplicateKey \<Rightarrow>
                        (s, json (Fail ''Customer with this email or account number already exists'') 409)
                    | Inl ValidationError \<Rightarrow> (s, json (Fail ''Internal server error'') 500)
                    | Inr s' \<Rightarrow>
                        (let token = jwt_sign l
                               \<lparr>p_customerId = cust_id newCustomer, p_email = email newCustomer,
                                p_accountNumber = accountNumber newCustomer\<rparr>
                         in (s', json (RegisteredBody token (customerData newCustomer)) 201)))))"

section \<open>Notions of the specification\<close>

subsection \<open>Stores\<close>


subsection \<open>Account numbers\<close>

text \<open>
  What the loop of the account number generator has established when it stops in state
  \<open>st'\<close>, started in state \<open>st\<close>: either a candidate that no customer holds, or a
  collision at every remaining attempt.
\<close>

definition loop_post :: "db \<Rightarrow> (nat \<Rightarrow> rat) \<Rightarrow> string option \<times> bool \<times> nat \<Rightarrow> string option \<times> bool \<times> nat \<Rightarrow> bool" where
  "loop_post s rnd st st' = (case (st, st') of ((acc, u, n), (acc', u', n')) \<Rightarrow>
     (if u' then (u \<and> acc' = acc) \<or> (\<exists>i\<ge>n. i < maxAttempts \<and> acc' = Some (randomDigits (rnd i))
                    \<and> findOne_accountNumber s (randomDigits (rnd i)) = None)
      else \<not> u \<and> (\<forall>i\<ge>n. i < maxAttempts \<longrightarrow> findOne_accountNumber s (randomDigits (rnd i)) \<noteq> None)))"

subsection \<open>Customer transfers that pass all validation\<close>

text \<open>
  The fee of a transfer: 2 percent of the amount for an international transfer, 2.50
  for a local one.
\<close>

definition transfer_fee :: "transfer_request \<Rightarrow> rat" where
  "transfer_fee r =
     (if the (f_transferType r) = ''international'' then the (f_amount r) * (2 / 100) else 5 / 2)"

text \<open>Correct formats: the required fields are present and every format check holds.\<close>

definition formats_ok :: "transfer_request \<Rightarrow> bool" where
  "formats_ok r =
     (\<not> falsy_str (f_transferType r) \<and> \<not> falsy_str (f_receiverName r)
      \<and> \<not> falsy_str (f_receiverAccountNumber r) \<and> \<not> falsy_str (f_transactionPin r)
      \<and> \<not> falsy_str (f_receiverBankName r)
      \<and> (the (f_transferType r) = ''local'' \<or> the (f_transferType r) = ''international'')
      \<and> name_ok (the (f_receiverName r)) \<and> pin_ok (the (f_transactionPin r))
      \<and> (the (f_transferType r) = ''local'' \<longrightarrow>
            local_account_ok (the (f_receiverAccountNumber r)))
      \<and> (the (f_transferType r) = ''international'' \<longrightarrow>
            \<not> falsy_str (f_receiverSwiftCode r) \<and> swift_ok (the (f_receiverSwiftCode r))
          \<and> \<not> falsy_str (f_receiverAddress r)
          \<and> (falsy_str (f_currency r)
               \<or> toUpperCase (the (f_currency r)) \<in> set supportedCurrencies)))"

text \<open>
  A request passes all validation when its token is valid and resolves to a customer,
  its formats are correct, the amount is at least 1 and within the daily limit of
  10000, the PIN matches the customer's, the balance covers the amount and the fee, and
  the receiver account is not the customer's own.
\<close>

definition passes_validation :: "lib \<Rightarrow> db \<Rightarrow> transfer_request \<Rightarrow> bool" where
  "passes_validation l s r =
     (\<not> falsy_str (f_authorization r) \<and> startsWith (the (f_authorization r)) ''Bearer ''
      \<and> (case jwt_verify l (drop 7 (the (f_authorization r))) of
            Inl e \<Rightarrow> False
          | Inr decoded \<Rightarrow>
             (case findById s (p_customerId decoded) of
                None \<Rightarrow> False
              | Some cust \<Rightarrow>
                  formats_ok r
                \<and> \<not> falsy_num (f_amount r) \<and> 1 \<le> the (f_amount r) \<and> the (f_amount r) \<le> 10000
                \<and> bcrypt_compare l (the (f_transactionPin r)) (transactionPin cust)
                \<and> the (f_amount r) + transfer_fee r \<le> balance cust
                \<and> the (f_receiverAccountNumber r) \<noteq> accountNumber cust)))"

subsection \<open>Registration requests\<close>

text \<open>A registration request that passes the field validation of the handler.\<close>

definition register_valid :: "register_request \<Rightarrow> bool" where
  "register_valid r =
     (\<not> falsy_str (g_firstname r) \<and> \<not> falsy_str (g_lastname r) \<and> \<not> falsy_str (g_email r)
      \<and> \<not> falsy_str (g_password r) \<and> \<not> falsy_str (g_transactionPin r)
      \<and> pin_ok (the (g_transactionPin r)))"

subsection \<open>Statements\<close>












section \<open>Example data\<close>

definition alice :: customer where
  "alice = \<lparr>cust_id = 1, firstname = ''Alice'', lastname = ''Adams'',
     email = ''alice@example.com'', accountNumber = ''1234567890'', password = ''hash:alice-pw'',
     phoneNumber = [], address = [], city = [], state = [], country = ''US'',
     postalCode = [], balance = 100, currency = ''USD'', transactionPin = ''hash:1234''\<rparr>"

definition bob :: customer where
  "bob = \<lparr>cust_id = 2, firstname = ''Bob'', lastname = ''Brown'',
     email = ''bob@example.com'', accountNumber = ''3250000000'', password = ''hash:bob-pw'',
     phoneNumber = [], address = [], city = [], state = [], country = ''US'',
     postalCode = [], balance = 20, currency = ''USD'', transactionPin = ''hash:4321''\<rparr>"

definition db0 :: db where
  "db0 = \<lparr>customers = [alice, bob], transactions = [], nextId = 3\<rparr>"



definition transfer500 :: transaction_request where
  "transfer500 = \<lparr>t_fromUserId = Some 1, t_toUserId = Some 2, t_amount = Some 500,
                   t_description = None\<rparr>"


definition negative50 :: transaction_request where
  "negative50 = \<lparr>t_fromUserId = Some 1, t_toUserId = Some 2, t_amount = Some (- 50),
                  t_description = None\<rparr>"

text \<open>A source of random values whose first draw collides with the account number of \<^const>\<open>bob\<close>.\<close>

definition rnd0 :: "nat \<Rightarrow> rat" where
  "rnd0 i = (if i = 0 then 1 / 4 else 1 / 2)"

text \<open>
  Libraries for the examples: three tokens verify (for alice, for an unknown customer,
  and an expired one), every other token is malformed.
\<close>

definition lib0 :: lib where
  "lib0 = \<lparr>jwt_verify = (\<lambda>t.
              if t = ''token-alice''
              then Inr \<lparr>p_customerId = 1, p_email = ''alice@example.com'',
                        p_accountNumber = ''1234567890''\<rparr>
              else if t = ''token-ghost''
              then Inr \<lparr>p_customerId = 99, p_email = ''ghost@example.com'',
                        p_accountNumber = ''9999999999''\<rparr>
              else if t = ''token-expired'' then Inl TokenExpiredError
              else Inl JsonWebTokenError),
            jwt_sign = (\<lambda>p. ''token-'' @ p_email p),
            bcrypt_hash = (\<lambda>x. ''hash:'' @ x),
            bcrypt_compare = (\<lambda>x h. h = ''hash:'' @ x),
            random = rnd0\<rparr>"



definition register_carol :: "string \<Rightarrow> register_request" where
  "register_carol e = \<lparr>g_firstname = Some ''Carol'', g_lastname = Some ''Clark'',
      g_email = Some e, g_password = Some ''secret'', g_phoneNumber = None,
      g_address = None, g_city = None, g_state = None, g_country = None,
      g_postalCode = None, g_transactionPin = Some ''123456''\<rparr>"

section \<open>Properties\<close>

subsection \<open>Lists and strings\<close>





lemma find_snoc:
  "\<forall>c \<in> set cs. \<not> P c \<Longrightarrow> P x \<Longrightarrow> find P (cs @ [x]) = Some x"
  by (induction cs) auto




lemma is_digit_digit_char: "d < 10 \<Longrightarrow> is_digit (digit_char d)"
proof -
  assume "d < 10"
  then have "d \<in> {0, 1, 2, 3, 4, 5, 6, 7, 8, 9}" by auto
  then show ?thesis by (auto simp: is_digit_def digit_char_def)
qed

lemma not_space_digit: "is_digit c \<Longrightarrow> \<not> is_space c"
  by (auto simp: is_digit_def is_space_def)

lemma show_nat_digits: "list_all is_digit (show_nat n)"
proof (induction n rule: show_nat.induct)
  case (1 n)
  show ?case
  proof (cases "n < 10")
    case True
    then show ?thesis by (subst show_nat.simps) (simp add: is_digit_digit_char)
  next
    case False
    with 1 show ?thesis by (subst show_nat.simps) (simp add: is_digit_digit_char)
  qed
qed

lemma length_show_nat: "10 ^ k \<le> n \<Longrightarrow> n < 10 ^ Suc k \<Longrightarrow> length (show_nat n) = Suc k"
proof (induction k arbitrary: n)
  case 0
  then show ?case by (subst show_nat.simps) simp
next
  case (Suc k)
  have "(1::nat) \<le> 10 ^ k" by simp
  then have "(10::nat) \<le> 10 * 10 ^ k" by linarith
  with Suc.prems(1) have big: "\<not> n < 10" unfolding power_Suc by linarith
  have "(10 * 10 ^ k) div 10 \<le> n div 10"
    using Suc.prems(1) by (intro div_le_mono) simp
  then have lo: "10 ^ k \<le> n div 10" by simp
  have "n < 10 ^ Suc k * 10" using Suc.prems(2) by simp
  then have hi: "n div 10 < 10 ^ Suc k" by (rule less_mult_imp_div_less)
  from Suc.IH[OF lo hi] big show ?case by (subst show_nat.simps) simp
qed

lemma trim_digits: "list_all is_digit a \<Longrightarrow> trim a = a"
proof -
  assume d: "list_all is_digit a"
  then have "\<forall>c \<in> set a. \<not> is_space c" by (auto simp: list_all_iff not_space_digit)
  then have 1: "dropWhile is_space a = a" and 2: "dropWhile is_space (rev a) = rev a"
    by (auto simp: dropWhile_eq_self_iff hd_rev dest: hd_in_set last_in_set)
  show ?thesis by (simp add: trim_def 1 2)
qed

lemma lower_char_fix: "c \<notin> set upper_letters \<Longrightarrow> lower_char c = c"
  by (simp add: lower_char_def upper_letters_def lower_letters_def)

lemma lower_char_idem: "lower_char (lower_char c) = lower_char c"
proof -
  have "lower_char c \<notin> set upper_letters"
    by (simp add: lower_char_def upper_letters_def lower_letters_def)
  then show ?thesis by (rule lower_char_fix)
qed

lemma is_space_lower_char: "is_space (lower_char c) = is_space c"
  by (simp add: lower_char_def upper_letters_def lower_letters_def is_space_def)

lemma trim_toLowerCase: "trim (toLowerCase e) = toLowerCase (trim e)"
proof -
  have comp: "is_space \<circ> lower_char = is_space" by (auto simp: is_space_lower_char)
  have dw: "\<And>xs. dropWhile is_space (map lower_char xs) = map lower_char (dropWhile is_space xs)"
    by (simp add: dropWhile_map comp)
  show ?thesis
    by (simp only: trim_def toLowerCase_def dw rev_map)
qed

lemma cast_email_toLowerCase: "cast_email (toLowerCase e) = cast_email e"
  by (simp add: cast_email_def trim_toLowerCase) (simp add: toLowerCase_def lower_char_idem)



subsection \<open>Admin deposit\<close>







text \<open>A deposit of a negative amount, or of none, is rejected and writes nothing.\<close>

lemma deposit_POST_nonpositive_rejected:
  assumes "session" "d_amount r = Some A" "A \<le> 0"
  shows "fst (deposit_POST now session r s) = s \<and> status (snd (deposit_POST now session r s)) = 400"
  using assms by (simp add: deposit_POST_def json_def falsy_num_def)

subsection \<open>Admin peer transfer\<close>

lemma transactions_POST_rejects_unchanged:
  "status (snd (transactions_POST now session r s)) \<noteq> 201 \<Longrightarrow> status (snd (transactions_POST now session r s)) \<noteq> 500
    \<Longrightarrow> fst (transactions_POST now session r s) = s"
  by (auto simp: transactions_POST_def json_def Let_def split: option.splits if_splits)



text \<open>
  Claim C4. For every peer transfer request of amount \<open>A\<close> from account \<open>X\<close> with a
  balance below \<open>A\<close>, the operation is rejected and nothing changes: the store after
  is the store before, so no balance is modified and no transaction record is created.
  When the request is authenticated, names an existing destination and carries an
  amount (zero counts as a missing field), the rejection is the insufficient-balance
  error.
\<close>

theorem insufficient_balance_rejected:
  assumes "t_fromUserId r = Some x" "findById s x = Some X"
    and "t_amount r = Some A" "balance X < A"
  shows "fst (transactions_POST now session r s) = s
     \<and> status (snd (transactions_POST now session r s)) \<in> {400, 401, 404}
     \<and> (session \<and> A \<noteq> 0 \<and> t_toUserId r = Some y \<and> findById s y = Some Y \<longrightarrow>
          snd (transactions_POST now session r s) = json (Err ''Insufficient balance'') 400)"
  using assms
  by (auto simp: transactions_POST_def json_def falsy_id_def falsy_num_def split: option.splits)

theorem insufficient_balance_rejected_witness:
  "transactions_POST 1000 True transfer500 db0 = (db0, json (Err ''Insufficient balance'') 400)"
proof -
  have h: "t_fromUserId transfer500 = Some 1" "findById db0 1 = Some alice"
      "t_amount transfer500 = Some 500" "balance alice < 500"
    by (simp_all add: transfer500_def findById_def db0_def alice_def)
  have g: "t_toUserId transfer500 = Some 2" "findById db0 2 = Some bob"
    by (simp_all add: transfer500_def findById_def db0_def alice_def bob_def)
  from insufficient_balance_rejected[OF h, of 1000 True 2 bob] g
  show ?thesis by (simp add: prod_eq_iff)
qed



text \<open>
  Claim C3. A transfer request with an amount \<open>A \<le> 0\<close> is to be rejected with a
  validation error and no state change. The admin peer transfer does not check the sign
  of the amount: the request below, of amount \<open>-50\<close> from alice (balance 100) to bob
  (balance 20), is accepted with status 201, records a transaction of \<open>-50\<close> and moves
  50 from bob to alice, leaving bob at \<open>-30\<close>.
\<close>

theorem negative_transfer_accepted:
  "status (snd (transactions_POST 1000 True negative50 db0)) = 201
   \<and> map balance (customers (fst (transactions_POST 1000 True negative50 db0))) = [150, - 30]
   \<and> map amount (transactions (fst (transactions_POST 1000 True negative50 db0))) = [- 50]"
  by (simp add: transactions_POST_def negative50_def db0_def alice_def bob_def json_def falsy_id_def falsy_num_def Let_def
        findByIdAndUpdate_inc_def save_transaction_def new_Transaction_def findById_def)

text \<open>
  The other paths do reject: the peer transfer treats an amount of zero as a missing
  field, and the customer transfer rejects every amount that is not positive.
\<close>

lemma transactions_POST_zero_rejected:
  assumes "session" "t_amount r = Some 0"
  shows "transactions_POST now session r s
           = (s, json (Err ''From user, to user, and amount are required'') 400)"
  using assms by (simp add: transactions_POST_def falsy_num_def)

subsection \<open>Customer transfer\<close>

lemma transfer_POST_no_write: "fst (transfer_POST l now r s) = s"
  by (simp add: transfer_POST_def Let_def split: sum.splits option.splits)

lemma transfer_POST_auth_failures:
  "(falsy_str (f_authorization r) \<or> \<not> startsWith (the (f_authorization r)) ''Bearer '' \<longrightarrow>
      transfer_POST l now r s = (s, json (Err ''Authorization token required'') 401))
   \<and> (\<not> falsy_str (f_authorization r) \<and> startsWith (the (f_authorization r)) ''Bearer ''
        \<and> jwt_verify l (drop 7 (the (f_authorization r))) = Inl e \<longrightarrow>
      transfer_POST l now r s = (s, json (Err ''Invalid or expired token'') 401))"
  by (simp add: transfer_POST_def)

lemma transfer_POST_nonpositive_rejected:
  assumes "f_amount r = Some A" "A \<le> 0"
  shows "fst (transfer_POST l now r s) = s
     \<and> status (snd (transfer_POST l now r s)) \<in> {400, 401}"
proof -
  have "status (snd (transfer_POST l now r s)) \<in> {400, 401}"
    using assms
    by (auto simp: transfer_POST_def json_def Let_def falsy_num_def split: sum.splits)
  then show ?thesis by (simp add: transfer_POST_no_write)
qed




lemma transfer_503_only_if:
  assumes "status (snd (transfer_POST l now r s)) = 503"
  shows "passes_validation l s r"
proof -
  have a: "\<not> falsy_str (f_authorization r)" "startsWith (the (f_authorization r)) ''Bearer ''"
    using assms by (auto simp: transfer_POST_def json_def split: if_splits)
  then obtain decoded where d: "jwt_verify l (drop 7 (the (f_authorization r))) = Inr decoded"
    using assms by (cases "jwt_verify l (drop 7 (the (f_authorization r)))") (auto simp: transfer_POST_def json_def)
  have req: "\<not> falsy_str (f_transferType r)" "\<not> falsy_str (f_receiverName r)"
      "\<not> falsy_str (f_receiverAccountNumber r)" "\<not> falsy_num (f_amount r)"
      "\<not> falsy_str (f_transactionPin r)"
    using assms a d by (auto simp: transfer_POST_def json_def split: if_splits)
  from assms a d req obtain cust where c: "findById s (p_customerId decoded) = Some cust"
    by (cases "findById s (p_customerId decoded)") (auto simp: transfer_POST_def json_def Let_def split: if_splits)
  from assms a d req c show ?thesis
    by (simp add: transfer_POST_def json_def Let_def passes_validation_def formats_ok_def transfer_fee_def split: if_splits)
qed



subsection \<open>Token handling\<close>




subsection \<open>Account numbers\<close>

lemma randomDigits_range:
  assumes "0 \<le> (x::rat)" "x < 1"
  shows "10 ^ 9 \<le> nat \<lfloor>1000000000 + x * 9000000000\<rfloor>"
    and "nat \<lfloor>1000000000 + x * 9000000000\<rfloor> < 10 ^ Suc 9"
proof -
  define f where "f = \<lfloor>x * 9000000000\<rfloor>"
  have lo: "0 \<le> f" using assms by (simp add: f_def)
  have "x * 9000000000 < 9000000000" using assms by simp
  then have hi: "f < 9000000000" by (simp add: f_def floor_less_iff)
  have eq: "\<lfloor>1000000000 + x * 9000000000\<rfloor> = 1000000000 + f" by (simp add: f_def)
  show "10 ^ 9 \<le> nat \<lfloor>1000000000 + x * 9000000000\<rfloor>" unfolding eq using lo by simp
  show "nat \<lfloor>1000000000 + x * 9000000000\<rfloor> < 10 ^ Suc 9" unfolding eq using lo hi by simp
qed

lemma randomDigits_shape:
  assumes "0 \<le> x" "x < 1"
  shows "length (randomDigits x) = 10 \<and> list_all is_digit (randomDigits x)"
  using length_show_nat[OF randomDigits_range[OF assms]]
  by (simp add: randomDigits_def show_nat_digits)

lemma account_loop_post: "loop_post s rnd st (account_loop s rnd st)"
proof (induction s rnd st rule: account_loop.induct)
  case (1 s rnd acc u n)
  show ?case
  proof (cases "\<not> u \<and> n < maxAttempts")
    case False
    then have "account_loop s rnd (acc, u, n) = (acc, u, n)"
      by (subst account_loop.simps) auto
    with False show ?thesis by (auto simp: loop_post_def)
  next
    case True
    define x where "x = randomDigits (rnd n)"
    define u2 where "u2 = (findOne_accountNumber s x = None)"
    have u2eq: "(if findOne_accountNumber s x = None then True else u) = u2"
      using True by (simp add: u2_def)
    have step: "account_loop s rnd (acc, u, n) = account_loop s rnd (Some x, u2, Suc n)"
      using True by (subst account_loop.simps) (simp add: x_def[symmetric] u2eq Let_def)
    have IH: "loop_post s rnd (Some x, u2, Suc n) (account_loop s rnd (Some x, u2, Suc n))"
      using "1.IH"[OF True x_def refl] unfolding u2eq by simp
    obtain acc' u' n' where r: "account_loop s rnd (Some x, u2, Suc n) = (acc', u', n')"
      by (cases "account_loop s rnd (Some x, u2, Suc n)") auto
    have res: "account_loop s rnd (acc, u, n) = (acc', u', n')" by (simp only: step r)
    show ?thesis
    proof (cases u')
      case True
      with IH r have "(u2 \<and> acc' = Some x) \<or> (\<exists>i\<ge>Suc n. i < maxAttempts \<and> acc' = Some (randomDigits (rnd i))
                    \<and> findOne_accountNumber s (randomDigits (rnd i)) = None)"
        by (simp add: loop_post_def)
      then have "\<exists>i\<ge>n. i < maxAttempts \<and> acc' = Some (randomDigits (rnd i))
                    \<and> findOne_accountNumber s (randomDigits (rnd i)) = None"
      proof
        assume "u2 \<and> acc' = Some x"
        with \<open>\<not> u \<and> n < maxAttempts\<close> show ?thesis by (auto simp: u2_def x_def)
      next
        assume "\<exists>i\<ge>Suc n. i < maxAttempts \<and> acc' = Some (randomDigits (rnd i))
                    \<and> findOne_accountNumber s (randomDigits (rnd i)) = None"
        then obtain i where "Suc n \<le> i" "i < maxAttempts" "acc' = Some (randomDigits (rnd i))"
             "findOne_accountNumber s (randomDigits (rnd i)) = None" by blast
        then show ?thesis by (intro exI[of _ i]) simp
      qed
      with True show ?thesis unfolding res loop_post_def by simp
    next
      case False
      with IH r have nu: "\<not> u2" and all: "\<forall>i\<ge>Suc n. i < maxAttempts \<longrightarrow> findOne_accountNumber s (randomDigits (rnd i)) \<noteq> None"
        by (simp_all add: loop_post_def)
      have "\<forall>i\<ge>n. i < maxAttempts \<longrightarrow> findOne_accountNumber s (randomDigits (rnd i)) \<noteq> None"
      proof (intro allI impI)
        fix i assume "n \<le> i" "i < maxAttempts"
        show "findOne_accountNumber s (randomDigits (rnd i)) \<noteq> None"
        proof (cases "i = n")
          case True with nu show ?thesis by (simp add: u2_def x_def)
        next
          case False
          with \<open>n \<le> i\<close> have "Suc n \<le> i" by simp
          with all \<open>i < maxAttempts\<close> show ?thesis by blast
        qed
      qed
      with False \<open>\<not> u \<and> n < maxAttempts\<close> show ?thesis unfolding res loop_post_def by simp
    qed
  qed
qed

lemma findOne_accountNumber_None_digits:
  "list_all is_digit a \<Longrightarrow>
     findOne_accountNumber s a = None \<longleftrightarrow> a \<notin> accountNumber ` set (customers s)"
  by (auto simp: findOne_accountNumber_def trim_digits find_None_iff)

lemma generateUniqueAccountNumber_outcome:
  assumes rnd: "\<forall>i. 0 \<le> rnd i \<and> rnd i < 1"
  shows "(\<exists>i<maxAttempts. generateUniqueAccountNumber s rnd = Inr (Some (randomDigits (rnd i)))
             \<and> randomDigits (rnd i) \<notin> accountNumber ` set (customers s))
       \<or> (generateUniqueAccountNumber s rnd = Inl GenerationFailed
             \<and> (\<forall>i<maxAttempts. randomDigits (rnd i) \<in> accountNumber ` set (customers s)))"
proof -
  obtain acc u n where r: "account_loop s rnd (None, False, 0) = (acc, u, n)"
    by (cases "account_loop s rnd (None, False, 0)") auto
  have post: "loop_post s rnd (None, False, 0) (acc, u, n)"
    using account_loop_post[of s rnd "(None, False, 0)"] unfolding r .
  have shape: "\<And>i. list_all is_digit (randomDigits (rnd i))"
    using rnd by (simp add: randomDigits_shape)
  show ?thesis
  proof (cases u)
    case True
    with post obtain i where i: "i < maxAttempts" "acc = Some (randomDigits (rnd i))"
        "findOne_accountNumber s (randomDigits (rnd i)) = None"
      by (auto simp: loop_post_def)
    then have "randomDigits (rnd i) \<notin> accountNumber ` set (customers s)"
      using shape[of i] by (simp add: findOne_accountNumber_None_digits)
    moreover have "generateUniqueAccountNumber s rnd = Inr (Some (randomDigits (rnd i)))"
      using True i by (simp add: generateUniqueAccountNumber_def r)
    ultimately show ?thesis using i(1) by blast
  next
    case False
    with post have "\<forall>i<maxAttempts. findOne_accountNumber s (randomDigits (rnd i)) \<noteq> None"
      by (simp add: loop_post_def)
    then have "\<forall>i<maxAttempts. randomDigits (rnd i) \<in> accountNumber ` set (customers s)"
      using shape by (simp add: findOne_accountNumber_None_digits)
    moreover have "generateUniqueAccountNumber s rnd = Inl GenerationFailed"
      using False by (simp add: generateUniqueAccountNumber_def r)
    ultimately show ?thesis by blast
  qed
qed

text \<open>
  Claim C9. Every account number that \<^const>\<open>generateUniqueAccountNumber\<close> returns is a
  string of exactly 10 decimal digits that is the account number of no existing
  customer; the function fails with an error, instead of returning a duplicate, exactly
  when each of the 10 attempts drew the account number of an existing customer.
  \<^verbatim>\<open>Math.random()\<close> returns values in the interval from 0 (included) to 1 (excluded).
\<close>

theorem generateUniqueAccountNumber_unique:
  assumes rnd: "\<forall>i. 0 \<le> rnd i \<and> rnd i < 1"
  shows "(\<forall>r. generateUniqueAccountNumber s rnd = Inr r \<longrightarrow>
            (\<exists>a. r = Some a \<and> length a = 10 \<and> list_all is_digit a
                 \<and> a \<notin> accountNumber ` set (customers s)))
       \<and> (generateUniqueAccountNumber s rnd = Inl GenerationFailed \<longleftrightarrow>
            (\<forall>i<maxAttempts. randomDigits (rnd i) \<in> accountNumber ` set (customers s)))"
proof -
  have shape: "\<And>i. length (randomDigits (rnd i)) = 10 \<and> list_all is_digit (randomDigits (rnd i))"
    using rnd by (simp add: randomDigits_shape)
  from generateUniqueAccountNumber_outcome[OF rnd, of s] show ?thesis
  proof
    assume "\<exists>i<maxAttempts. generateUniqueAccountNumber s rnd = Inr (Some (randomDigits (rnd i)))
             \<and> randomDigits (rnd i) \<notin> accountNumber ` set (customers s)"
    then obtain i where "i < maxAttempts"
      "generateUniqueAccountNumber s rnd = Inr (Some (randomDigits (rnd i)))"
      "randomDigits (rnd i) \<notin> accountNumber ` set (customers s)" by blast
    with shape[of i] show ?thesis by auto
  next
    assume "generateUniqueAccountNumber s rnd = Inl GenerationFailed
             \<and> (\<forall>i<maxAttempts. randomDigits (rnd i) \<in> accountNumber ` set (customers s))"
    then show ?thesis by simp
  qed
qed

theorem generateUniqueAccountNumber_unique_witness:
  "(\<forall>i. 0 \<le> rnd0 i \<and> rnd0 i < 1)
     \<and> generateUniqueAccountNumber db0 rnd0 = Inr (Some ''5500000000'')
     \<and> length ''5500000000'' = 10 \<and> list_all is_digit ''5500000000''
     \<and> ''5500000000'' \<notin> accountNumber ` set (customers db0)"
proof -
  have h: "\<forall>i. 0 \<le> rnd0 i \<and> rnd0 i < 1" by (simp add: rnd0_def)
  have ev: "generateUniqueAccountNumber db0 rnd0 = Inr (Some ''5500000000'')"
    by (simp add: generateUniqueAccountNumber_def account_loop.simps maxAttempts_def rnd0_def
          randomDigits_def show_nat.simps digit_char_def findOne_accountNumber_def trim_def
          is_space_def db0_def alice_def bob_def)
  from generateUniqueAccountNumber_unique[OF h, of db0] ev
  have "\<exists>a. Some ''5500000000'' = Some a \<and> length a = 10 \<and> list_all is_digit a
            \<and> a \<notin> accountNumber ` set (customers db0)"
    by simp
  with h ev show ?thesis by simp
qed

subsection \<open>Registration\<close>

lemma register_existing_email_conflict:
  assumes "register_valid r" "findOne_email s (the (g_email r)) = Some c"
  shows "register_POST l r s = (s, json (Fail ''Customer with this email already exists'') 409)"
  using assms by (simp add: register_POST_def register_valid_def)

lemma register_rejects_unchanged:
  "status (snd (register_POST l r s)) \<noteq> 201 \<Longrightarrow> fst (register_POST l r s) = s"
  by (auto simp: register_POST_def Let_def json_def split: option.splits sum.splits db_error.splits if_splits)

text \<open>
  Claim C8. Registering a second customer with an email already used by an existing
  customer is rejected with a conflict error (HTTP 409) and creates no new customer
  record, while the first registration succeeds. The two requests pass the field
  validation and carry the same email up to case and surrounding blanks; the first one
  finds the email unused, its names and email are not blank, the hashes are not empty,
  and one of the 10 random draws is an unused account number.
\<close>

theorem duplicate_email_conflict:
  assumes v1: "register_valid r1" and v2: "register_valid r2"
    and same: "cast_email (the (g_email r2)) = cast_email (the (g_email r1))"
    and unused: "findOne_email s (the (g_email r1)) = None"
    and names: "trim (the (g_firstname r1)) \<noteq> []" "trim (the (g_lastname r1)) \<noteq> []"
      "cast_email (the (g_email r1)) \<noteq> []"
    and hashes: "bcrypt_hash l (the (g_password r1)) \<noteq> []"
      "bcrypt_hash l (the (g_transactionPin r1)) \<noteq> []"
    and rnd: "\<forall>i. 0 \<le> random l i \<and> random l i < 1"
      "\<exists>i<maxAttempts. randomDigits (random l i) \<notin> accountNumber ` set (customers s)"
  shows "\<exists>s1 tok new. register_POST l r1 s = (s1, json (RegisteredBody tok (customerData new)) 201)
      \<and> customers s1 = customers s @ [new]
      \<and> email new = cast_email (the (g_email r1)) \<and> balance new = 0
      \<and> register_POST l r2 s1 = (s1, json (Fail ''Customer with this email already exists'') 409)
      \<and> customers (fst (register_POST l r2 s1)) = customers s1"
proof -
  from generateUniqueAccountNumber_outcome[OF rnd(1), of s] rnd(2)
  obtain i where gen: "generateUniqueAccountNumber s (random l) = Inr (Some (randomDigits (random l i)))"
    and fresh: "randomDigits (random l i) \<notin> accountNumber ` set (customers s)"
    by blast
  define a where "a = randomDigits (random l i)"
  have shape: "length a = 10" "list_all is_digit a"
    using rnd(1) by (simp_all add: a_def randomDigits_shape)
  then have ta: "trim a = a" "a \<noteq> []" by (auto simp: trim_digits)
  define new where "new = new_Customer s
     \<lparr>cust_id = 0, firstname = the (g_firstname r1), lastname = the (g_lastname r1),
      email = toLowerCase (the (g_email r1)), accountNumber = a,
      password = bcrypt_hash l (the (g_password r1)),
      phoneNumber = or_default (g_phoneNumber r1) [],
      address = or_default (g_address r1) [], city = or_default (g_city r1) [],
      state = or_default (g_state r1) [],
      country = or_default (g_country r1) ''US'',
      postalCode = or_default (g_postalCode r1) [],
      balance = 0, currency = ''USD'',
      transactionPin = bcrypt_hash l (the (g_transactionPin r1))\<rparr>"
  have fields: "firstname new = trim (the (g_firstname r1))" "lastname new = trim (the (g_lastname r1))"
    "email new = cast_email (the (g_email r1))" "accountNumber new = a"
    "password new = bcrypt_hash l (the (g_password r1))"
    "transactionPin new = bcrypt_hash l (the (g_transactionPin r1))" "balance new = 0"
    by (simp_all add: new_def new_Customer_def cast_email_toLowerCase ta)
  have noemail: "\<forall>c \<in> set (customers s). email c \<noteq> cast_email (the (g_email r1))"
    using unused by (auto simp: findOne_email_def find_None_iff)
  define s1 where "s1 = s\<lparr>customers := customers s @ [new], nextId := Suc (nextId s)\<rparr>"
  have fresh': "\<forall>c \<in> set (customers s). accountNumber c \<noteq> a"
    using fresh unfolding a_def by (metis imageI)
  have save: "save_customer s new = Inr s1"
    using names hashes ta noemail fresh'
    by (simp add: save_customer_def fields s1_def)
  have first: "register_POST l r1 s =
      (s1, json (RegisteredBody (jwt_sign l \<lparr>p_customerId = cust_id new, p_email = email new,
                                p_accountNumber = accountNumber new\<rparr>) (customerData new)) 201)"
    using v1 unused gen save
    by (simp add: register_POST_def register_valid_def Let_def a_def[symmetric] new_def[symmetric])
  have "findOne_email s1 (the (g_email r2)) = Some new"
    unfolding findOne_email_def s1_def same using noemail
    by (simp add: find_snoc fields)
  from register_existing_email_conflict[OF v2 this]
  have second: "register_POST l r2 s1 = (s1, json (Fail ''Customer with this email already exists'') 409)" .
  have "customers s1 = customers s @ [new]" by (simp add: s1_def)
  with first second fields show ?thesis by auto
qed

theorem duplicate_email_conflict_witness:
  "\<exists>s1 tok new. register_POST lib0 (register_carol ''Carol@Example.com'') db0
         = (s1, json (RegisteredBody tok (customerData new)) 201)
      \<and> customers s1 = customers db0 @ [new]
      \<and> email new = ''carol@example.com'' \<and> balance new = 0
      \<and> register_POST lib0 (register_carol '' carol@example.COM'') s1
           = (s1, json (Fail ''Customer with this email already exists'') 409)"
proof -
  have v: "register_valid (register_carol ''Carol@Example.com'')"
      "register_valid (register_carol '' carol@example.COM'')"
    by (simp_all add: register_valid_def register_carol_def falsy_str_def pin_ok_def is_digit_def)
  have c1: "cast_email ''Carol@Example.com'' = ''carol@example.com''"
    and c2: "cast_email '' carol@example.COM'' = ''carol@example.com''"
    by (simp_all add: cast_email_def trim_def is_space_def toLowerCase_def lower_char_def
          upper_letters_def lower_letters_def)
  have same: "cast_email (the (g_email (register_carol '' carol@example.COM'')))
      = cast_email (the (g_email (register_carol ''Carol@Example.com'')))"
    by (simp add: register_carol_def c1 c2)
  have unused: "findOne_email db0 (the (g_email (register_carol ''Carol@Example.com''))) = None"
    by (simp add: register_carol_def findOne_email_def c1 db0_def alice_def bob_def)
  have names: "trim (the (g_firstname (register_carol ''Carol@Example.com''))) \<noteq> []"
      "trim (the (g_lastname (register_carol ''Carol@Example.com''))) \<noteq> []"
      "cast_email (the (g_email (register_carol ''Carol@Example.com''))) \<noteq> []"
    by (simp_all add: register_carol_def c1 trim_def is_space_def)
  have hashes: "bcrypt_hash lib0 (the (g_password (register_carol ''Carol@Example.com''))) \<noteq> []"
      "bcrypt_hash lib0 (the (g_transactionPin (register_carol ''Carol@Example.com''))) \<noteq> []"
    by (simp_all add: lib0_def)
  have rnd: "\<forall>i. 0 \<le> random lib0 i \<and> random lib0 i < 1"
    by (simp add: lib0_def rnd0_def)
  have "randomDigits (random lib0 1) \<notin> accountNumber ` set (customers db0)"
    by (simp add: lib0_def rnd0_def randomDigits_def show_nat.simps digit_char_def
          db0_def alice_def bob_def)
  then have draw: "\<exists>i<maxAttempts. randomDigits (random lib0 i) \<notin> accountNumber ` set (customers db0)"
    by (intro exI[of _ 1]) (simp add: maxAttempts_def)
  from duplicate_email_conflict[OF v same unused names hashes rnd draw]
  show ?thesis by (auto simp: register_carol_def c1)
qed

subsection \<open>Statements\<close>
























end
